theory Spec2Isabelle
  imports Complex_Main
begin

section \<open>JavaScript values\<close>

text \<open>
  The values that flow through the tool layer of \<^verbatim>\<open>rampensau-mcp-spec.js\<close>. A number is a
  finite real (NaN and the infinities are left out, and the rounding of doubles is not
  modelled); a string is the list of its code units; an object is the list of its own
  enumerable properties in property order; a function value is opaque and carries a name only.
\<close>

datatype jsval =
    JUndefined
  | JNull
  | JBool bool
  | JNumber real
  | JString string
  | JArray "jsval list"
  | JObject "(string \<times> jsval) list"
  | JFunction string

text \<open>\<^verbatim>\<open>obj[key]\<close> on a plain data object: the property's value, or \<^verbatim>\<open>undefined\<close>.\<close>

definition get_prop :: "(string \<times> jsval) list \<Rightarrow> string \<Rightarrow> jsval" where
  "get_prop fs k = (case map_of fs k of None \<Rightarrow> JUndefined | Some v \<Rightarrow> v)"

text \<open>\<^verbatim>\<open>key in obj\<close>.\<close>

definition has_key :: "(string \<times> jsval) list \<Rightarrow> string \<Rightarrow> bool" where
  "has_key fs k = (map_of fs k \<noteq> None)"

text \<open>JavaScript truthiness (\<^verbatim>\<open>ToBoolean\<close>).\<close>

fun truthy :: "jsval \<Rightarrow> bool" where
  "truthy JUndefined = False"
| "truthy JNull = False"
| "truthy (JBool b) = b"
| "truthy (JNumber x) = (x \<noteq> 0)"
| "truthy (JString s) = (s \<noteq> [])"
| "truthy (JArray xs) = True"
| "truthy (JObject fs) = True"
| "truthy (JFunction f) = True"

section \<open>Errors\<close>

text \<open>
  What a tool call can throw: the \<^verbatim>\<open>ZodError\<close> of a failed \<^verbatim>\<open>parse\<close> with its issues, a plain
  \<^verbatim>\<open>Error\<close> with its message, and the runtime's \<^verbatim>\<open>TypeError\<close>.
\<close>

datatype seg = Key string | Index nat

datatype issue_code =
    invalid_type string
  | too_small
  | too_big
  | custom string
  | invalid_enum_value
  | invalid_union
  | unrecognized_keys "string list"

datatype zod_issue = ZodIssue (path: "seg list") (code: issue_code)

datatype js_error =
    ZodError "zod_issue list"
  | Error string
  | TypeError string

section \<open>\<^verbatim>\<open>JSON.stringify\<close>\<close>

text \<open>
  \<^verbatim>\<open>JSON.stringify(value, null, space)\<close> after ECMA-262 (\<^verbatim>\<open>SerializeJSONProperty\<close>,
  \<^verbatim>\<open>SerializeJSONObject\<close>, \<^verbatim>\<open>SerializeJSONArray\<close>, \<^verbatim>\<open>QuoteJSONString\<close>) on plain data
  without \<^verbatim>\<open>toJSON\<close> methods. The rendering of a number (\<^verbatim>\<open>Number::toString\<close>) is the
  parameter \<open>num2str\<close>. The result \<open>None\<close> is \<^verbatim>\<open>undefined\<close>.
\<close>

definition hex_digit :: "nat \<Rightarrow> char" where
  "hex_digit n = ''0123456789abcdef'' ! (n mod 16)"

definition quote_char :: "char \<Rightarrow> string" where
  "quote_char c =
     (if c = CHR 0x08 then [CHR 0x5C, CHR ''b'']
      else if c = CHR 0x09 then [CHR 0x5C, CHR ''t'']
      else if c = CHR 0x0A then [CHR 0x5C, CHR ''n'']
      else if c = CHR 0x0C then [CHR 0x5C, CHR ''f'']
      else if c = CHR 0x0D then [CHR 0x5C, CHR ''r'']
      else if c = CHR 0x22 then [CHR 0x5C, CHR 0x22]
      else if c = CHR 0x5C then [CHR 0x5C, CHR 0x5C]
      else if (of_char c :: nat) < 0x20
        then [CHR 0x5C, CHR ''u'', CHR ''0'', CHR ''0'',
              hex_digit (of_char c div 16), hex_digit (of_char c)]
      else [c])"

definition QuoteJSONString :: "string \<Rightarrow> string" where
  "QuoteJSONString s = [CHR 0x22] @ concat (map quote_char s) @ [CHR 0x22]"

fun join :: "string \<Rightarrow> string list \<Rightarrow> string" where
  "join sep [] = []"
| "join sep [x] = x"
| "join sep (x # y # ys) = x @ sep @ join sep (y # ys)"

text \<open>
  \<open>wrap_partial\<close> is the common tail of \<^verbatim>\<open>SerializeJSONObject\<close> and
  \<^verbatim>\<open>SerializeJSONArray\<close>: \<open>stepback\<close> is the indentation outside the brackets.
\<close>

definition wrap_partial :: "string \<Rightarrow> string \<Rightarrow> string \<Rightarrow> string \<Rightarrow> string list \<Rightarrow> string" where
  "wrap_partial opn cls gap stepback partial =
     (let indent = stepback @ gap in
      if partial = [] then opn @ cls
      else if gap = [] then opn @ join '','' partial @ cls
      else opn @ [CHR 0x0A] @ indent @ join ('','' @ [CHR 0x0A] @ indent) partial
             @ [CHR 0x0A] @ stepback @ cls)"

fun SerializeJSONProperty :: "(real \<Rightarrow> string) \<Rightarrow> string \<Rightarrow> string \<Rightarrow> jsval \<Rightarrow> string option"
  and SerializeJSONArray :: "(real \<Rightarrow> string) \<Rightarrow> string \<Rightarrow> string \<Rightarrow> jsval list \<Rightarrow> string list"
  and SerializeJSONObject :: "(real \<Rightarrow> string) \<Rightarrow> string \<Rightarrow> string \<Rightarrow> (string \<times> jsval) list \<Rightarrow> string list"
where
  "SerializeJSONProperty num2str gap indent JUndefined = None"
| "SerializeJSONProperty num2str gap indent (JFunction f) = None"
| "SerializeJSONProperty num2str gap indent JNull = Some ''null''"
| "SerializeJSONProperty num2str gap indent (JBool b) = Some (if b then ''true'' else ''false'')"
| "SerializeJSONProperty num2str gap indent (JString s) = Some (QuoteJSONString s)"
| "SerializeJSONProperty num2str gap indent (JNumber x) = Some (num2str x)"
| "SerializeJSONProperty num2str gap indent (JArray xs) =
     Some (wrap_partial ''['' '']'' gap indent (SerializeJSONArray num2str gap (indent @ gap) xs))"
| "SerializeJSONProperty num2str gap indent (JObject fs) =
     Some (wrap_partial ''{'' ''}'' gap indent (SerializeJSONObject num2str gap (indent @ gap) fs))"
| "SerializeJSONArray num2str gap indent [] = []"
| "SerializeJSONArray num2str gap indent (x # xs) =
     (case SerializeJSONProperty num2str gap indent x of None \<Rightarrow> ''null'' | Some s \<Rightarrow> s)
       # SerializeJSONArray num2str gap indent xs"
| "SerializeJSONObject num2str gap indent [] = []"
| "SerializeJSONObject num2str gap indent ((k, v) # fs) =
     (case SerializeJSONProperty num2str gap indent v of
        None \<Rightarrow> SerializeJSONObject num2str gap indent fs
      | Some s \<Rightarrow> (QuoteJSONString k @ '':'' @ (if gap = [] then [] else '' '') @ s)
                   # SerializeJSONObject num2str gap indent fs)"

definition JSON_stringify :: "(real \<Rightarrow> string) \<Rightarrow> jsval \<Rightarrow> nat \<Rightarrow> string option" where
  "JSON_stringify num2str v space =
     SerializeJSONProperty num2str (replicate (min 10 space) CHR '' '') [] v"

section \<open>The runtime and the colour engine\<close>

text \<open>
  Two conversions of the JavaScript runtime are parameters: \<^verbatim>\<open>Number::toString\<close>, and
  \<^verbatim>\<open>ToString\<close> of an array, an object or a function (through \<^verbatim>\<open>ToPrimitive\<close>, which may
  throw).
\<close>

record runtime =
  Number_toString :: "real \<Rightarrow> string"
  Object_toString :: "jsval \<Rightarrow> js_error + string"

definition ToString :: "runtime \<Rightarrow> jsval \<Rightarrow> js_error + string" where
  "ToString rt v =
     (case v of
        JUndefined \<Rightarrow> Inr ''undefined''
      | JNull \<Rightarrow> Inr ''null''
      | JBool b \<Rightarrow> Inr (if b then ''true'' else ''false'')
      | JNumber x \<Rightarrow> Inr (Number_toString rt x)
      | JString s \<Rightarrow> Inr s
      | _ \<Rightarrow> Object_toString rt v)"

text \<open>
  The functions imported from the \<^verbatim>\<open>rampensau\<close> package are parameters as well. They are
  taken with the call contract of the engine: a ramp generator returns a sequence of colours,
  \<^verbatim>\<open>colorToCSS\<close> returns a string, \<^verbatim>\<open>pointOnCurve\<close> returns a function, the utilities take
  their arguments positionally, and no engine function throws. One \<open>engine\<close> value stands for
  one run, so a function that draws random numbers is a function here too.
\<close>

record engine =
  generateColorRamp :: "jsval \<Rightarrow> jsval list"
  generateColorRampWithCurve :: "jsval \<Rightarrow> jsval list"
  colorToCSS :: "jsval \<Rightarrow> jsval \<Rightarrow> string"
  harveyHue :: "jsval \<Rightarrow> jsval"
  colorHarmonies :: "string \<Rightarrow> (jsval \<Rightarrow> jsval) option"
  uniqueRandomHues :: "jsval \<Rightarrow> jsval"
  shuffleArray :: "jsval list \<Rightarrow> jsval"
  lerp :: "jsval list \<Rightarrow> jsval"
  scaleSpreadArray :: "jsval list \<Rightarrow> jsval"
  pointOnCurve :: "jsval list \<Rightarrow> jsval list \<Rightarrow> jsval"
  makeCurveEasings :: "jsval list \<Rightarrow> jsval"

section \<open>The response envelope\<close>

record content_item =
  item_type :: string
  item_text :: "string option"

record envelope =
  content :: "content_item list"

text \<open>
  \<^verbatim>\<open>asResult\<close>: one text item; a string is passed through, anything else goes through
  \<^verbatim>\<open>JSON.stringify(data, null, 2)\<close>.
\<close>

definition asResult :: "runtime \<Rightarrow> jsval \<Rightarrow> envelope" where
  "asResult rt data =
     \<lparr> content = [\<lparr> item_type = ''text'',
                     item_text = (case data of JString s \<Rightarrow> Some s
                                  | _ \<Rightarrow> JSON_stringify (Number_toString rt) data 2) \<rparr>] \<rparr>"

section \<open>The schema library\<close>

text \<open>
  The part of zod (version 3) that the module uses, with the parsing rules of its classes
  \<^verbatim>\<open>ZodNumber\<close>, \<^verbatim>\<open>ZodEnum\<close>, \<^verbatim>\<open>ZodAny\<close>, \<^verbatim>\<open>ZodArray\<close>, \<^verbatim>\<open>ZodTuple\<close>, \<^verbatim>\<open>ZodObject\<close>,
  \<^verbatim>\<open>ZodUnion\<close>, \<^verbatim>\<open>ZodOptional\<close>, \<^verbatim>\<open>ZodDefault\<close> and \<^verbatim>\<open>ZodEffects\<close> (\<^verbatim>\<open>refine\<close>,
  \<^verbatim>\<open>transform\<close>). \<^verbatim>\<open>describe\<close> only attaches documentation and is dropped.
  \<^verbatim>\<open>z.object(shape)\<close> is built without \<^verbatim>\<open>.strict()\<close> or \<^verbatim>\<open>.passthrough()\<close>, so it has zod's
  default policy for unknown keys, \<^verbatim>\<open>strip\<close>.
\<close>

datatype num_check = IsInt | Min real | Max real

datatype schema =
    ZNumber "num_check list"
  | ZEnum "string list"
  | ZAny
  | ZArray schema "nat option"
  | ZTuple "schema list"
  | ZObject "(string \<times> schema) list"
  | ZUnion "schema list"
  | ZOptional schema
  | ZDefault schema jsval
  | ZRefine schema "jsval \<Rightarrow> bool" string
  | ZTransform schema "jsval \<Rightarrow> jsval"

text \<open>
  A parse returns the issues it raised and a value; no value is zod's status \<^verbatim>\<open>aborted\<close>,
  a value with issues is \<^verbatim>\<open>dirty\<close>, a value without issues is \<^verbatim>\<open>valid\<close>.
\<close>

type_synonym parse_return = "zod_issue list \<times> jsval option"

definition is_valid :: "parse_return \<Rightarrow> bool" where
  "is_valid r = (fst r = [] \<and> snd r \<noteq> None)"

definition is_dirty :: "parse_return \<Rightarrow> bool" where
  "is_dirty r = (fst r \<noteq> [] \<and> snd r \<noteq> None)"

definition INVALID :: "issue_code \<Rightarrow> parse_return" where
  "INVALID c = ([ZodIssue [] c], None)"

definition at_path :: "seg \<Rightarrow> parse_return \<Rightarrow> parse_return" where
  "at_path sg r = (map (\<lambda>i. ZodIssue (sg # path i) (code i)) (fst r), snd r)"

definition run_check :: "real \<Rightarrow> num_check \<Rightarrow> zod_issue list" where
  "run_check x c =
     (case c of
        IsInt \<Rightarrow> (if x = of_int \<lfloor>x\<rfloor> then [] else [ZodIssue [] (invalid_type ''integer'')])
      | Min m \<Rightarrow> (if x < m then [ZodIssue [] too_small] else [])
      | Max m \<Rightarrow> (if x > m then [ZodIssue [] too_big] else []))"

text \<open>\<^verbatim>\<open>ParseStatus.mergeArray\<close>: the issues of all elements are kept; one aborted element
  aborts the array.\<close>

definition mergeArray :: "zod_issue list \<Rightarrow> parse_return list \<Rightarrow> parse_return" where
  "mergeArray own rs =
     (own @ concat (map fst rs),
      if list_all (\<lambda>r. snd r \<noteq> None) rs then Some (JArray (map (the \<circ> snd) rs)) else None)"

text \<open>
  \<^verbatim>\<open>ParseStatus.mergeObjectSync\<close>: a key is written to the result when its parsed value is not
  \<^verbatim>\<open>undefined\<close> or the key was in the input (\<^verbatim>\<open>alwaysSet\<close>); \<^verbatim>\<open>__proto__\<close> is never written.
\<close>

fun final_fields :: "(string \<times> bool \<times> parse_return) list \<Rightarrow> (string \<times> jsval) list" where
  "final_fields [] = []"
| "final_fields ((k, alwaysSet, (is, Some v)) # ps) =
     (if k \<noteq> ''__proto__'' \<and> (v \<noteq> JUndefined \<or> alwaysSet)
      then (k, v) # final_fields ps else final_fields ps)"
| "final_fields ((k, alwaysSet, (is, None)) # ps) = final_fields ps"

definition mergeObjectSync :: "(string \<times> bool \<times> parse_return) list \<Rightarrow> parse_return" where
  "mergeObjectSync ps =
     (concat (map (fst \<circ> snd \<circ> snd) ps),
      if list_all (\<lambda>p. snd (snd (snd p)) \<noteq> None) ps then Some (JObject (final_fields ps)) else None)"

text \<open>The class-specific steps that surround the recursive calls.\<close>

definition elements :: "jsval \<Rightarrow> jsval list" where
  "elements data = (case data of JArray xs \<Rightarrow> xs | _ \<Rightarrow> [])"

definition own_fields :: "jsval \<Rightarrow> (string \<times> jsval) list" where
  "own_fields data = (case data of JObject fs \<Rightarrow> fs | _ \<Rightarrow> [])"

definition number_result :: "num_check list \<Rightarrow> jsval \<Rightarrow> parse_return" where
  "number_result checks data =
     (case data of
        JNumber x \<Rightarrow> (concat (map (run_check x) checks), Some data)
      | _ \<Rightarrow> INVALID (invalid_type ''number''))"

definition enum_result :: "string list \<Rightarrow> jsval \<Rightarrow> parse_return" where
  "enum_result vals data =
     (case data of
        JString s \<Rightarrow> (if s \<in> set vals then ([], Some data) else INVALID invalid_enum_value)
      | _ \<Rightarrow> INVALID (invalid_type ''string''))"

definition array_result :: "nat option \<Rightarrow> jsval \<Rightarrow> parse_return list \<Rightarrow> parse_return" where
  "array_result exact data rs =
     (case data of
        JArray xs \<Rightarrow>
          mergeArray
            (case exact of
               None \<Rightarrow> []
             | Some n \<Rightarrow> (if length xs > n then [ZodIssue [] too_big]
                          else if length xs < n then [ZodIssue [] too_small] else []))
            rs
      | _ \<Rightarrow> INVALID (invalid_type ''array''))"

definition tuple_result :: "nat \<Rightarrow> jsval \<Rightarrow> parse_return list \<Rightarrow> parse_return" where
  "tuple_result n data rs =
     (case data of
        JArray xs \<Rightarrow>
          (if length xs < n then INVALID too_small
           else mergeArray (if length xs > n then [ZodIssue [] too_big] else []) rs)
      | _ \<Rightarrow> INVALID (invalid_type ''array''))"

definition object_result :: "jsval \<Rightarrow> (string \<times> bool \<times> parse_return) list \<Rightarrow> parse_return" where
  "object_result data ps =
     (case data of
        JObject fs \<Rightarrow> mergeObjectSync ps
      | _ \<Rightarrow> INVALID (invalid_type ''object''))"

text \<open>\<^verbatim>\<open>ZodUnion\<close>: the first option that is valid; failing that the first dirty one, with its
  issues; failing that \<^verbatim>\<open>invalid_union\<close>.\<close>

definition union_result :: "parse_return list \<Rightarrow> parse_return" where
  "union_result rs =
     (case List.find is_valid rs of
        Some r \<Rightarrow> r
      | None \<Rightarrow> (case List.find is_dirty rs of
                   Some r \<Rightarrow> r
                 | None \<Rightarrow> INVALID invalid_union))"

text \<open>\<^verbatim>\<open>ZodOptional\<close> answers \<^verbatim>\<open>undefined\<close> itself and never asks the inner schema.\<close>

definition optional_result :: "jsval \<Rightarrow> parse_return \<Rightarrow> parse_return" where
  "optional_result data inner = (if data = JUndefined then ([], Some JUndefined) else inner)"

text \<open>A refinement runs on every result that is not aborted; a transform only on a valid one.\<close>

definition refine_result :: "(jsval \<Rightarrow> bool) \<Rightarrow> string \<Rightarrow> parse_return \<Rightarrow> parse_return" where
  "refine_result check message r =
     (case r of
        (is, None) \<Rightarrow> (is, None)
      | (is, Some v) \<Rightarrow> (is @ (if check v then [] else [ZodIssue [] (custom message)]), Some v))"

definition transform_result :: "(jsval \<Rightarrow> jsval) \<Rightarrow> parse_return \<Rightarrow> parse_return" where
  "transform_result f r =
     (case r of
        (is, None) \<Rightarrow> (is, None)
      | (is, Some v) \<Rightarrow> (if is = [] then ([], Some (f v)) else (is, Some v)))"

text \<open>
  The loops over the elements of an array, the items of a tuple, the fields of a shape and the
  options of a union, each given the parsers of the inner schemas. On data of the wrong type
  they run over nothing and the class's step above reports \<^verbatim>\<open>invalid_type\<close>. The field loop
  reads \<^verbatim>\<open>data[key]\<close> and \<^verbatim>\<open>key in data\<close> for the declared keys; no key that the module
  declares is a name that objects inherit, so both are read off the own properties.
\<close>

fun run_each :: "(jsval \<Rightarrow> parse_return) \<Rightarrow> nat \<Rightarrow> jsval list \<Rightarrow> parse_return list" where
  "run_each p i [] = []"
| "run_each p i (x # xs) = at_path (Index i) (p x) # run_each p (Suc i) xs"

fun run_items :: "(jsval \<Rightarrow> parse_return) list \<Rightarrow> nat \<Rightarrow> jsval list \<Rightarrow> parse_return list" where
  "run_items [] i xs = []"
| "run_items (p # ps) i [] = []"
| "run_items (p # ps) i (x # xs) = at_path (Index i) (p x) # run_items ps (Suc i) xs"

fun run_fields :: "(string \<times> (jsval \<Rightarrow> parse_return)) list \<Rightarrow> (string \<times> jsval) list
                     \<Rightarrow> (string \<times> bool \<times> parse_return) list" where
  "run_fields [] fs = []"
| "run_fields ((k, p) # shape) fs =
     (k, has_key fs k, at_path (Key k) (p (get_prop fs k))) # run_fields shape fs"

fun run_options :: "(jsval \<Rightarrow> parse_return) list \<Rightarrow> jsval \<Rightarrow> parse_return list" where
  "run_options [] data = []"
| "run_options (p # ps) data = p data # run_options ps data"

text \<open>\<open>zparse\<close> is \<^verbatim>\<open>_parse\<close>.\<close>

primrec zparse :: "schema \<Rightarrow> jsval \<Rightarrow> parse_return" where
  "zparse (ZNumber checks) = (\<lambda>data. number_result checks data)"
| "zparse (ZEnum vals) = (\<lambda>data. enum_result vals data)"
| "zparse ZAny = (\<lambda>data. ([], Some data))"
| "zparse (ZArray elt exact) =
     (\<lambda>data. array_result exact data (run_each (zparse elt) 0 (elements data)))"
| "zparse (ZTuple items) =
     (\<lambda>data. tuple_result (length items) data (run_items (map zparse items) 0 (elements data)))"
| "zparse (ZObject shape) =
     (\<lambda>data. object_result data (run_fields (map (map_prod id zparse) shape) (own_fields data)))"
| "zparse (ZUnion options) = (\<lambda>data. union_result (run_options (map zparse options) data))"
| "zparse (ZOptional inner) = (\<lambda>data. optional_result data (zparse inner data))"
| "zparse (ZDefault inner dflt) =
     (\<lambda>data. zparse inner (if data = JUndefined then dflt else data))"
| "zparse (ZRefine inner check message) =
     (\<lambda>data. refine_result check message (zparse inner data))"
| "zparse (ZTransform inner f) = (\<lambda>data. transform_result f (zparse inner data))"

text \<open>\<^verbatim>\<open>schema.parse(data)\<close>: the value when the status is valid, a thrown \<^verbatim>\<open>ZodError\<close> otherwise.\<close>

definition parse :: "schema \<Rightarrow> jsval \<Rightarrow> js_error + jsval" where
  "parse s data =
     (case zparse s data of
        ([], Some v) \<Rightarrow> Inr v
      | (is, _) \<Rightarrow> Inl (ZodError is))"

section \<open>The module \<^verbatim>\<open>rampensau-mcp-spec.js\<close>\<close>

subsection \<open>Shared option shapes\<close>

text \<open>\<^verbatim>\<open>norm01\<close>: a number in 0..100, read as a percentage when it is above 1.\<close>

definition norm01_refine :: "jsval \<Rightarrow> bool" where
  "norm01_refine v = (case v of JNumber x \<Rightarrow> x \<ge> 0 \<and> x \<le> 100 | _ \<Rightarrow> False)"

definition norm01_transform :: "jsval \<Rightarrow> jsval" where
  "norm01_transform v = (case v of JNumber x \<Rightarrow> (if x > 1 then JNumber (x / 100) else v) | _ \<Rightarrow> v)"

definition norm01 :: schema where
  "norm01 = ZTransform (ZRefine (ZNumber []) norm01_refine ''must be between 0 and 100'')
              norm01_transform"

definition RangeTuple :: schema where
  "RangeTuple = ZTuple [norm01, norm01]"

definition RampBase :: "(string \<times> schema) list" where
  "RampBase =
     [(''total'', ZDefault (ZNumber [IsInt, Min 3]) (JNumber 10)),
      (''hStart'', ZOptional (ZNumber [Min 0, Max 360])),
      (''hStartCenter'', ZOptional norm01),
      (''hCycles'', ZOptional (ZDefault (ZNumber [Min 1]) (JNumber 1))),
      (''hueList'', ZOptional (ZArray (ZNumber [Min 0, Max 360]) None)),
      (''sRange'', ZOptional RangeTuple),
      (''lRange'', ZOptional RangeTuple)]"

text \<open>The first curve method is \<^verbatim>\<open>lam\<close> followed by e-acute, the code unit \<open>0xE9\<close>.\<close>

definition CurveExtra :: "(string \<times> schema) list" where
  "CurveExtra =
     [(''curveMethod'', ZOptional (ZEnum [''lam'' @ [CHR 0xE9], ''sine'', ''power'', ''linear''])),
      (''curveAccent'', ZOptional (ZNumber [Min 0, Max 5]))]"

definition Format_transform :: "jsval \<Rightarrow> jsval" where
  "Format_transform f = (if f = JString ''css'' then JString ''css-hsl'' else f)"

definition Format :: schema where
  "Format = ZTransform (ZDefault (ZEnum [''array'', ''css-hsl'', ''css-oklch'', ''css''])
                          (JString ''array''))
              Format_transform"

definition FormatOpt :: "(string \<times> schema) list" where
  "FormatOpt = [(''format'', ZOptional Format)]"

subsection \<open>Destructuring and spreading\<close>

text \<open>
  A parameter pattern \<^verbatim>\<open>({ a, b })\<close> throws on \<^verbatim>\<open>undefined\<close> and \<^verbatim>\<open>null\<close> and reads
  properties off anything else; none of the names the tools read is a property of a
  primitive, an array or a function.
\<close>

definition destructure :: "jsval \<Rightarrow> js_error + (string \<times> jsval) list" where
  "destructure raw =
     (case raw of
        JUndefined \<Rightarrow> Inl (TypeError ''Cannot destructure undefined'')
      | JNull \<Rightarrow> Inl (TypeError ''Cannot destructure null'')
      | JObject fs \<Rightarrow> Inr fs
      | _ \<Rightarrow> Inr [])"

text \<open>The rest pattern \<^verbatim>\<open>{ a, b, ...opts }\<close>: the properties other than the ones named.\<close>

definition omit :: "string list \<Rightarrow> (string \<times> jsval) list \<Rightarrow> (string \<times> jsval) list" where
  "omit ks fs = filter (\<lambda>kv. fst kv \<notin> set ks) fs"

text \<open>\<^verbatim>\<open>f(...args)\<close>: an array spreads to its elements, a string to its characters, and
  nothing else that the model holds is iterable.\<close>

definition spread :: "jsval \<Rightarrow> js_error + jsval list" where
  "spread args =
     (case args of
        JArray xs \<Rightarrow> Inr xs
      | JString s \<Rightarrow> Inr (map (\<lambda>c. JString [c]) s)
      | _ \<Rightarrow> Inl (TypeError ''args is not iterable''))"

subsection \<open>Tool 1: generate\<close>

definition generate_parameters :: "(string \<times> schema) list" where
  "generate_parameters = RampBase @ CurveExtra @ FormatOpt"

text \<open>\<open>generate_out\<close> is the body of \<^verbatim>\<open>execute\<close> up to the value \<^verbatim>\<open>out\<close>.\<close>

definition generate_out :: "engine \<Rightarrow> jsval \<Rightarrow> js_error + jsval" where
  "generate_out eng raw =
     (case parse (ZObject generate_parameters) raw of
        Inl e \<Rightarrow> Inl e
      | Inr parsed \<Rightarrow>
          (let p = own_fields parsed;
               format = (if get_prop p ''format'' = JUndefined then JString ''array''
                         else get_prop p ''format'');
               curveMethod = get_prop p ''curveMethod'';
               opts = omit [''format'', ''curveMethod''] p;
               ramp = (if truthy curveMethod
                       then generateColorRampWithCurve eng
                              (JObject (opts @ [(''curveMethod'', curveMethod)]))
                       else generateColorRamp eng (JObject opts));
               out = (if format = JString ''array'' then JArray ramp
                      else JArray (map (\<lambda>c. JString (colorToCSS eng c
                                     (JString (if format = JString ''css-hsl'' then ''hsl''
                                               else ''oklch'')))) ramp))
           in Inr out))"

definition generate_execute :: "runtime \<Rightarrow> engine \<Rightarrow> jsval \<Rightarrow> js_error + envelope" where
  "generate_execute rt eng raw =
     (case generate_out eng raw of Inl e \<Rightarrow> Inl e | Inr out \<Rightarrow> Inr (asResult rt out))"

subsection \<open>Tool 2: uniqueRandomHues\<close>

definition uniqueRandomHues_parameters :: "(string \<times> schema) list" where
  "uniqueRandomHues_parameters =
     [(''startHue'', ZOptional (ZNumber [Min 0, Max 360])),
      (''total'', ZOptional (ZDefault (ZNumber [IsInt, Min 1]) (JNumber 5))),
      (''minHueDiffAngle'', ZOptional (ZNumber [Min 0, Max 360]))]"

definition uniqueRandomHues_out :: "engine \<Rightarrow> jsval \<Rightarrow> js_error + jsval" where
  "uniqueRandomHues_out eng args =
     (case parse (ZObject uniqueRandomHues_parameters) args of
        Inl e \<Rightarrow> Inl e
      | Inr opts \<Rightarrow> Inr (uniqueRandomHues eng opts))"

definition uniqueRandomHues_execute :: "runtime \<Rightarrow> engine \<Rightarrow> jsval \<Rightarrow> js_error + envelope" where
  "uniqueRandomHues_execute rt eng args =
     (case uniqueRandomHues_out eng args of Inl e \<Rightarrow> Inl e | Inr out \<Rightarrow> Inr (asResult rt out))"

subsection \<open>Tool 3: colorHarmony\<close>

definition colorHarmony_parameters :: "(string \<times> schema) list" where
  "colorHarmony_parameters =
     [(''method'', ZEnum [''complementary'', ''splitComplementary'', ''triadic'', ''tetradic'',
                          ''monochromatic'', ''doubleComplementary'', ''compound'', ''analogous'']),
      (''baseHue'', ZNumber [Min 0, Max 360])]"

definition colorHarmony_out :: "runtime \<Rightarrow> engine \<Rightarrow> jsval \<Rightarrow> js_error + jsval" where
  "colorHarmony_out rt eng raw =
     (case destructure raw of
        Inl e \<Rightarrow> Inl e
      | Inr fs \<Rightarrow>
          (case ToString rt (get_prop fs ''method'') of
             Inl e \<Rightarrow> Inl e
           | Inr key \<Rightarrow>
               (case colorHarmonies eng key of
                  None \<Rightarrow> Inl (TypeError ''colorHarmonies[method] is not a function'')
                | Some f \<Rightarrow> Inr (f (get_prop fs ''baseHue'')))))"

definition colorHarmony_execute :: "runtime \<Rightarrow> engine \<Rightarrow> jsval \<Rightarrow> js_error + envelope" where
  "colorHarmony_execute rt eng raw =
     (case colorHarmony_out rt eng raw of Inl e \<Rightarrow> Inl e | Inr out \<Rightarrow> Inr (asResult rt out))"

subsection \<open>Tool 4: toCSS\<close>

definition toCSS_mode_transform :: "jsval \<Rightarrow> jsval" where
  "toCSS_mode_transform m =
     (if m = JString ''css'' \<or> m = JString ''css-hsl'' then JString ''hsl''
      else if m = JString ''css-hsv'' then JString ''hsv''
      else if m = JString ''css-lch'' then JString ''lch''
      else if m = JString ''css-oklch'' then JString ''oklch''
      else m)"

text \<open>
  The \<^verbatim>\<open>mode\<close> schema is \<^verbatim>\<open>z.enum([...]).default('oklch').transform(...).optional()\<close>:
  \<open>toCSS_mode_inner\<close> is the chain up to the transform, and \<^verbatim>\<open>optional\<close> wraps it.
\<close>

definition toCSS_mode_inner :: schema where
  "toCSS_mode_inner =
     ZTransform
       (ZDefault (ZEnum [''hsl'', ''hsv'', ''lch'', ''oklch'', ''css'', ''css-hsl'',
                         ''css-hsv'', ''css-lch'', ''css-oklch''])
          (JString ''oklch''))
       toCSS_mode_transform"

definition toCSS_parameters :: "(string \<times> schema) list" where
  "toCSS_parameters =
     [(''color'', ZArray (ZNumber []) (Some 3)),
      (''mode'', ZOptional toCSS_mode_inner)]"

definition toCSS_out :: "engine \<Rightarrow> jsval \<Rightarrow> js_error + jsval" where
  "toCSS_out eng raw =
     (case destructure raw of
        Inl e \<Rightarrow> Inl e
      | Inr fs \<Rightarrow> Inr (JString (colorToCSS eng (get_prop fs ''color'') (get_prop fs ''mode''))))"

definition toCSS_execute :: "runtime \<Rightarrow> engine \<Rightarrow> jsval \<Rightarrow> js_error + envelope" where
  "toCSS_execute rt eng raw =
     (case toCSS_out eng raw of Inl e \<Rightarrow> Inl e | Inr out \<Rightarrow> Inr (asResult rt out))"

subsection \<open>Tool 5: harveyHue\<close>

definition harveyHue_parameters :: "(string \<times> schema) list" where
  "harveyHue_parameters = [(''h'', ZNumber [Min 0, Max 360])]"

definition harveyHue_out :: "engine \<Rightarrow> jsval \<Rightarrow> js_error + jsval" where
  "harveyHue_out eng raw =
     (case destructure raw of
        Inl e \<Rightarrow> Inl e
      | Inr fs \<Rightarrow> Inr (harveyHue eng (get_prop fs ''h'')))"

definition harveyHue_execute :: "runtime \<Rightarrow> engine \<Rightarrow> jsval \<Rightarrow> js_error + envelope" where
  "harveyHue_execute rt eng raw =
     (case harveyHue_out eng raw of Inl e \<Rightarrow> Inl e | Inr out \<Rightarrow> Inr (asResult rt out))"

subsection \<open>Tool 6: utils\<close>

definition utils_parameters :: "(string \<times> schema) list" where
  "utils_parameters =
     [(''fn'', ZEnum [''shuffle'', ''lerp'', ''scaleSpread'', ''curvePoint'', ''curveEasings'']),
      (''args'', ZOptional (ZArray ZAny None))]"

text \<open>
  The own properties of the object literal \<^verbatim>\<open>map\<close>. Each closure spreads \<^verbatim>\<open>args\<close>; the entry
  \<^verbatim>\<open>curvePoint\<close> passes all of \<^verbatim>\<open>args\<close> to \<^verbatim>\<open>pointOnCurve\<close> and \<^verbatim>\<open>args.slice(2)\<close> to the
  function that comes back.
\<close>

definition utils_map :: "engine \<Rightarrow> (string \<times> (jsval list \<Rightarrow> jsval)) list" where
  "utils_map eng =
     [(''shuffle'', \<lambda>args. shuffleArray eng args),
      (''lerp'', \<lambda>args. lerp eng args),
      (''scaleSpread'', \<lambda>args. scaleSpreadArray eng args),
      (''curvePoint'', \<lambda>args. pointOnCurve eng args (drop 2 args)),
      (''curveEasings'', \<lambda>args. makeCurveEasings eng args)]"

text \<open>
  \<^verbatim>\<open>map\<close> is an ordinary object, so \<^verbatim>\<open>map[fn]\<close> also finds what it inherits from
  \<^verbatim>\<open>Object.prototype\<close> (ECMA-262, 20.1.3 and B.2.2). \<open>call_inherited this key\<close> is the call
  \<^verbatim>\<open>map[key]()\<close> for such a key, with no arguments and \<^verbatim>\<open>map\<close> as \<^verbatim>\<open>this\<close>: \<^verbatim>\<open>__proto__\<close>
  is an object and not callable, and the two \<^verbatim>\<open>__define...__\<close> methods reject a missing
  accessor function.
\<close>

definition Object_prototype_names :: "string list" where
  "Object_prototype_names =
     [''constructor'', ''__defineGetter__'', ''__defineSetter__'', ''hasOwnProperty'',
      ''__lookupGetter__'', ''__lookupSetter__'', ''isPrototypeOf'', ''propertyIsEnumerable'',
      ''toString'', ''valueOf'', ''__proto__'', ''toLocaleString'']"

definition call_inherited :: "(string \<times> jsval) list \<Rightarrow> string \<Rightarrow> js_error + jsval" where
  "call_inherited this key =
     (if key = ''toString'' \<or> key = ''toLocaleString'' then Inr (JString ''[object Object]'')
      else if key = ''valueOf'' then Inr (JObject this)
      else if key = ''constructor'' then Inr (JObject [])
      else if key = ''hasOwnProperty'' \<or> key = ''isPrototypeOf'' \<or> key = ''propertyIsEnumerable''
        then Inr (JBool False)
      else if key = ''__lookupGetter__'' \<or> key = ''__lookupSetter__'' then Inr JUndefined
      else if key = ''__defineGetter__'' \<or> key = ''__defineSetter__''
        then Inl (TypeError ''Object.prototype.__define__: Expecting function'')
      else Inl (TypeError ''map[fn] is not a function''))"

definition utils_out :: "runtime \<Rightarrow> engine \<Rightarrow> jsval \<Rightarrow> js_error + jsval" where
  "utils_out rt eng raw =
     (case destructure raw of
        Inl e \<Rightarrow> Inl e
      | Inr fs \<Rightarrow>
          (let fn = get_prop fs ''fn'';
               args = (if get_prop fs ''args'' = JUndefined then JArray [] else get_prop fs ''args'')
           in case ToString rt fn of
                Inl e \<Rightarrow> Inl e
              | Inr key \<Rightarrow>
                  (case map_of (utils_map eng) key of
                     Some f \<Rightarrow> (case spread args of Inl e \<Rightarrow> Inl e | Inr as \<Rightarrow> Inr (f as))
                   | None \<Rightarrow>
                       (if key \<in> set Object_prototype_names
                        then call_inherited (map (\<lambda>kf. (fst kf, JFunction (fst kf))) (utils_map eng)) key
                        else Inl (Error (''utils: unknown fn '' @ [CHR 0x22] @ key @ [CHR 0x22]))))))"

definition utils_execute :: "runtime \<Rightarrow> engine \<Rightarrow> jsval \<Rightarrow> js_error + envelope" where
  "utils_execute rt eng raw =
     (case utils_out rt eng raw of Inl e \<Rightarrow> Inl e | Inr out \<Rightarrow> Inr (asResult rt out))"

subsection \<open>The spec object\<close>

record tool =
  name :: string
  parameters :: "(string \<times> schema) list"
  execute :: "runtime \<Rightarrow> engine \<Rightarrow> jsval \<Rightarrow> js_error + envelope"

definition tools :: "tool list" where
  "tools =
     [\<lparr> name = ''generate'', parameters = generate_parameters, execute = generate_execute \<rparr>,
      \<lparr> name = ''uniqueRandomHues'', parameters = uniqueRandomHues_parameters,
        execute = uniqueRandomHues_execute \<rparr>,
      \<lparr> name = ''colorHarmony'', parameters = colorHarmony_parameters,
        execute = colorHarmony_execute \<rparr>,
      \<lparr> name = ''toCSS'', parameters = toCSS_parameters, execute = toCSS_execute \<rparr>,
      \<lparr> name = ''harveyHue'', parameters = harveyHue_parameters, execute = harveyHue_execute \<rparr>,
      \<lparr> name = ''utils'', parameters = utils_parameters, execute = utils_execute \<rparr>]"

section \<open>The wrapper variant of the module\<close>

text \<open>
  A second copy of the module (headed \<^verbatim>\<open>safe, alias-friendly wrapper\<close>) has the same helpers,
  \<^verbatim>\<open>RampBase\<close> and \<^verbatim>\<open>Format\<close>, selects the curve by an aliased \<^verbatim>\<open>curveAccent\<close>, and lets
  \<^verbatim>\<open>toCSS\<close> take one colour or a palette. Its definitions carry the prefix \<open>wrapper\<close> where the
  name is taken.
\<close>

definition ACCENT_ALIASES :: "(string \<times> string) list" where
  "ACCENT_ALIASES =
     [(''lam'' @ [CHR 0xE9], ''lam'' @ [CHR 0xE9]), (''lame'', ''lam'' @ [CHR 0xE9]),
      (''arc'', ''arc''), (''linear'', ''arc''), (''sine'', ''arc''), (''easeInOut'', ''arc''),
      (''pow'', ''pow''), (''power'', ''pow''),
      (''powx'', ''powX''), (''powX'', ''powX''),
      (''powy'', ''powY''), (''powY'', ''powY'')]"

definition CurveOpts :: "(string \<times> schema) list" where
  "CurveOpts = [(''curveAccent'', ZOptional (ZEnum (map fst ACCENT_ALIASES)))]"

definition wrapper_generate_parameters :: "(string \<times> schema) list" where
  "wrapper_generate_parameters = RampBase @ CurveOpts @ FormatOpt"

text \<open>\<^verbatim>\<open>ACCENT_ALIASES[curveAccent]\<close>, for a \<^verbatim>\<open>curveAccent\<close> that passed the enum of its keys.\<close>

definition accent_of :: "jsval \<Rightarrow> jsval" where
  "accent_of curveAccent =
     (case curveAccent of
        JString s \<Rightarrow> (case map_of ACCENT_ALIASES s of Some a \<Rightarrow> JString a | None \<Rightarrow> JUndefined)
      | _ \<Rightarrow> JUndefined)"

definition wrapper_generate_out :: "engine \<Rightarrow> jsval \<Rightarrow> js_error + jsval" where
  "wrapper_generate_out eng raw =
     (case parse (ZObject wrapper_generate_parameters) raw of
        Inl e \<Rightarrow> Inl e
      | Inr parsed \<Rightarrow>
          (let p = own_fields parsed;
               format = (if get_prop p ''format'' = JUndefined then JString ''array''
                         else get_prop p ''format'');
               curveAccent = get_prop p ''curveAccent'';
               opts = omit [''format'', ''curveAccent''] p;
               accent = (if truthy curveAccent then accent_of curveAccent else JUndefined);
               ramp = (if truthy accent
                       then generateColorRampWithCurve eng
                              (JObject (opts @ [(''curveAccent'', accent)]))
                       else generateColorRamp eng (JObject opts));
               out = (if format = JString ''array'' then JArray ramp
                      else JArray (map (\<lambda>c. JString (colorToCSS eng c
                                     (JString (if format = JString ''css-hsl'' then ''hsl''
                                               else ''oklch'')))) ramp))
           in Inr out))"

definition wrapper_generate_execute :: "runtime \<Rightarrow> engine \<Rightarrow> jsval \<Rightarrow> js_error + envelope" where
  "wrapper_generate_execute rt eng raw =
     (case wrapper_generate_out eng raw of Inl e \<Rightarrow> Inl e | Inr out \<Rightarrow> Inr (asResult rt out))"

definition Color3 :: schema where
  "Color3 = ZArray (ZNumber []) (Some 3)"

definition Palette :: schema where
  "Palette = ZUnion [Color3, ZArray Color3 None]"

definition wrapper_mode_aliases :: "(string \<times> string) list" where
  "wrapper_mode_aliases =
     [(''css'', ''hsl''), (''css-hsl'', ''hsl''), (''css-hsv'', ''hsv''),
      (''css-lch'', ''lch''), (''css-oklch'', ''oklch'')]"

definition wrapper_mode_transform :: "jsval \<Rightarrow> jsval" where
  "wrapper_mode_transform m =
     (case m of
        JString s \<Rightarrow> (case map_of wrapper_mode_aliases s of Some b \<Rightarrow> JString b | None \<Rightarrow> m)
      | _ \<Rightarrow> m)"

definition wrapper_toCSS_parameters :: "(string \<times> schema) list" where
  "wrapper_toCSS_parameters =
     [(''color'', Palette),
      (''mode'', ZTransform
                   (ZDefault (ZEnum [''hsl'', ''hsv'', ''lch'', ''oklch'', ''css'', ''css-hsl'',
                                     ''css-hsv'', ''css-lch'', ''css-oklch''])
                      (JString ''oklch''))
                   wrapper_mode_transform)]"

text \<open>\<^verbatim>\<open>color[0]\<close>: throws on \<^verbatim>\<open>undefined\<close> and \<^verbatim>\<open>null\<close>.\<close>

definition index0 :: "jsval \<Rightarrow> js_error + jsval" where
  "index0 v =
     (case v of
        JUndefined \<Rightarrow> Inl (TypeError ''Cannot read properties of undefined'')
      | JNull \<Rightarrow> Inl (TypeError ''Cannot read properties of null'')
      | JArray xs \<Rightarrow> Inr (case xs of [] \<Rightarrow> JUndefined | x # _ \<Rightarrow> x)
      | JString s \<Rightarrow> Inr (case s of [] \<Rightarrow> JUndefined | c # _ \<Rightarrow> JString [c])
      | JObject fs \<Rightarrow> Inr (get_prop fs ''0'')
      | _ \<Rightarrow> Inr JUndefined)"

definition isArray :: "jsval \<Rightarrow> bool" where
  "isArray v = (case v of JArray xs \<Rightarrow> True | _ \<Rightarrow> False)"

definition wrapper_toCSS_out :: "engine \<Rightarrow> jsval \<Rightarrow> js_error + jsval" where
  "wrapper_toCSS_out eng raw =
     (case destructure raw of
        Inl e \<Rightarrow> Inl e
      | Inr fs \<Rightarrow>
          (let color = get_prop fs ''color'';
               mode = get_prop fs ''mode'';
               toCss = (\<lambda>c. JString (colorToCSS eng c mode))
           in case index0 color of
                Inl e \<Rightarrow> Inl e
              | Inr first \<Rightarrow>
                  (if isArray first
                   then (case color of
                           JArray cs \<Rightarrow> Inr (JArray (map toCss cs))
                         | _ \<Rightarrow> Inl (TypeError ''color.map is not a function''))
                   else Inr (toCss color))))"

definition wrapper_toCSS_execute :: "runtime \<Rightarrow> engine \<Rightarrow> jsval \<Rightarrow> js_error + envelope" where
  "wrapper_toCSS_execute rt eng raw =
     (case wrapper_toCSS_out eng raw of Inl e \<Rightarrow> Inl e | Inr out \<Rightarrow> Inr (asResult rt out))"

section \<open>The dispatcher\<close>

text \<open>The value that the tool of a given name hands to \<^verbatim>\<open>asResult\<close>.\<close>

definition tool_out :: "string \<Rightarrow> runtime \<Rightarrow> engine \<Rightarrow> jsval \<Rightarrow> js_error + jsval" where
  "tool_out n rt eng raw =
     (if n = ''generate'' then generate_out eng raw
      else if n = ''uniqueRandomHues'' then uniqueRandomHues_out eng raw
      else if n = ''colorHarmony'' then colorHarmony_out rt eng raw
      else if n = ''toCSS'' then toCSS_out eng raw
      else if n = ''harveyHue'' then harveyHue_out eng raw
      else utils_out rt eng raw)"

datatype dispatch_error = ToolNotFound | Rejected js_error | Thrown js_error

fun free_form :: "schema \<Rightarrow> bool" where
  "free_form (ZArray ZAny n) = True"
| "free_form (ZOptional s) = free_form s"
| "free_form s = False"

text \<open>
  Modelled from the spec: the dispatcher of its section 4.3, which stands for the server
  that hosts the spec object (\<^verbatim>\<open>generic-spec-server.js\<close>, not among the sources). It looks the
  tool up by name, rejects unknown fields unless the schema has a free-form positional
  argument array, validates and transforms the raw arguments against the tool's parameters,
  and calls the handler on the canonical arguments; the handler wraps its own result. The
  check for unknown fields is the spec's step; validation and transformation are \<open>parse\<close> on
  the tool's own parameters.
\<close>

definition dispatch :: "runtime \<Rightarrow> engine \<Rightarrow> string \<Rightarrow> jsval \<Rightarrow> dispatch_error + envelope" where
  "dispatch rt eng toolName rawArgs =
     (case List.find (\<lambda>t. name t = toolName) tools of
        None \<Rightarrow> Inl ToolNotFound
      | Some t \<Rightarrow>
          (let unknown = filter (\<lambda>k. k \<notin> set (map fst (parameters t)))
                           (map fst (own_fields rawArgs))
           in if unknown \<noteq> [] \<and> \<not> list_ex (\<lambda>ks. free_form (snd ks)) (parameters t)
              then Inl (Rejected (ZodError [ZodIssue [] (unrecognized_keys unknown)]))
              else (case parse (ZObject (parameters t)) rawArgs of
                      Inl e \<Rightarrow> Inl (Rejected e)
                    | Inr canonical \<Rightarrow>
                        (case execute t rt eng canonical of
                           Inl e \<Rightarrow> Inl (Thrown e)
                         | Inr env \<Rightarrow> Inr env))))"

section \<open>A stand-in engine\<close>

text \<open>
  One concrete runtime and engine on which the tools can be run: the plain generator returns
  two colours and the curve-aware one a single colour, \<^verbatim>\<open>colorToCSS\<close> shows the colour space
  it was given, and \<^verbatim>\<open>pointOnCurve\<close> has the two parameters of the engine's function and
  returns a function that shows both argument groups.
\<close>

definition sample_runtime :: runtime where
  "sample_runtime =
     \<lparr> Number_toString = (\<lambda>x. if x = 0 then ''0'' else ''1''),
       Object_toString = (\<lambda>v. Inr ''[object Object]'') \<rparr>"

definition sample_engine :: engine where
  "sample_engine =
     \<lparr> generateColorRamp =
         (\<lambda>opts. [JArray [JNumber 0, JNumber 1, JNumber 0], JArray [JNumber 1, JNumber 1, JNumber 0]]),
       generateColorRampWithCurve = (\<lambda>opts. [JArray [JNumber 1, JNumber 0, JNumber 1]]),
       colorToCSS = (\<lambda>c space. (case space of JString s \<Rightarrow> s | _ \<Rightarrow> ''undefined'') @ ''(c)''),
       harveyHue = (\<lambda>h. h),
       colorHarmonies = (\<lambda>k. if k = ''complementary'' then Some (\<lambda>h. JArray [h]) else None),
       uniqueRandomHues = (\<lambda>opts. JArray [JNumber 0]),
       shuffleArray = (\<lambda>args. JArray (take 1 args)),
       lerp = (\<lambda>args. JNumber 0),
       scaleSpreadArray = (\<lambda>args. JArray (take 1 args)),
       pointOnCurve = (\<lambda>args rest. JArray [JArray (take 2 args), JArray rest]),
       makeCurveEasings = (\<lambda>args. JFunction ''easing'') \<rparr>"

section \<open>Properties\<close>

subsection \<open>The fraction normaliser\<close>

lemma zparse_norm01:
  "zparse norm01 (JNumber v) =
     (if 0 \<le> v \<and> v \<le> 100 then ([], Some (JNumber (if v > 1 then v / 100 else v)))
      else ([ZodIssue [] (custom ''must be between 0 and 100'')], Some (JNumber v)))"
  by (simp add: norm01_def number_result_def refine_result_def transform_result_def
        norm01_refine_def norm01_transform_def)

text \<open>
  Claim C4. \<^verbatim>\<open>norm01\<close> accepts every number \<open>v\<close> with \<open>0 \<le> v \<le> 100\<close> and returns a value in
  \<open>[0, 1]\<close>: \<open>v\<close> itself when \<open>v \<le> 1\<close>, and \<open>v / 100\<close> when \<open>v > 1\<close>. For every \<open>v\<close> outside
  \<open>[0, 100]\<close> the parse fails with the issue of the refinement and returns no value.
\<close>

theorem norm01_fraction:
  "(0 \<le> v \<and> v \<le> 100 \<longrightarrow>
      parse norm01 (JNumber v) = Inr (JNumber (if v > 1 then v / 100 else v))
      \<and> 0 \<le> (if v > 1 then v / 100 else v) \<and> (if v > 1 then v / 100 else v) \<le> 1)
   \<and> (v < 0 \<or> 100 < v \<longrightarrow>
      parse norm01 (JNumber v) = Inl (ZodError [ZodIssue [] (custom ''must be between 0 and 100'')]))"
  by (auto simp add: parse_def zparse_norm01)

theorem norm01_fraction_witness:
  "parse norm01 (JNumber 50) = Inr (JNumber (1 / 2))
   \<and> parse norm01 (JNumber (1 / 4)) = Inr (JNumber (1 / 4))
   \<and> parse norm01 (JNumber (- 1)) = Inl (ZodError [ZodIssue [] (custom ''must be between 0 and 100'')])
   \<and> parse norm01 (JNumber 101) = Inl (ZodError [ZodIssue [] (custom ''must be between 0 and 100'')])"
  using norm01_fraction [of 50] norm01_fraction [of "1 / 4"] norm01_fraction [of "- 1"]
    norm01_fraction [of 101]
  by simp

subsection \<open>Evaluation\<close>

text \<open>The defining equations that a concrete parse unfolds.\<close>

lemmas shapes =
  generate_parameters_def RampBase_def CurveExtra_def FormatOpt_def Format_def norm01_def
  RangeTuple_def

lemmas steps =
  parse_def object_result_def own_fields_def mergeObjectSync_def has_key_def get_prop_def
  at_path_def optional_result_def number_result_def run_check_def enum_result_def
  transform_result_def refine_result_def array_result_def tuple_result_def mergeArray_def
  INVALID_def elements_def union_result_def is_valid_def is_dirty_def

subsection \<open>The envelope\<close>

lemma tools_cases:
  "t \<in> set tools \<Longrightarrow>
     execute t rt eng raw =
       (case tool_out (name t) rt eng raw of Inl e \<Rightarrow> Inl e | Inr out \<Rightarrow> Inr (asResult rt out))"
  by (auto simp add: tools_def tool_out_def generate_execute_def uniqueRandomHues_execute_def
        colorHarmony_execute_def toCSS_execute_def harveyHue_execute_def utils_execute_def)

lemma stringify_example:
  "JSON_stringify f (JArray [JNumber 0]) 2 = Some (''['' @ [CHR 0x0A] @ ''  '' @ f 0 @ [CHR 0x0A] @ '']'')"
  by (simp add: JSON_stringify_def wrap_partial_def numeral_2_eq_2)

text \<open>
  Claim C1. For every tool of the registry and every value its handler hands over, the
  response is an envelope whose content is exactly one item; the item has type \<^verbatim>\<open>text\<close>, and
  its text is the value itself when that is a string and otherwise the serialization of
  the value by \<^verbatim>\<open>JSON.stringify\<close> with an indentation of two spaces.
\<close>

theorem asResult_single_text_item:
  "content (asResult rt data)
     = [\<lparr> item_type = ''text'',
          item_text = (case data of JString s \<Rightarrow> Some s
                       | _ \<Rightarrow> JSON_stringify (Number_toString rt) data 2) \<rparr>]
   \<and> (\<forall>t \<in> set tools. \<forall>raw.
         execute t rt eng raw
           = (case tool_out (name t) rt eng raw of
                Inl e \<Rightarrow> Inl e
              | Inr out \<Rightarrow>
                  Inr \<lparr> content =
                    [\<lparr> item_type = ''text'',
                       item_text = (case out of JString s \<Rightarrow> Some s
                                    | _ \<Rightarrow> JSON_stringify (Number_toString rt) out 2) \<rparr>] \<rparr>))"
  by (simp add: tools_cases asResult_def split: sum.splits)

theorem asResult_single_text_item_witness:
  "execute (tools ! 4) sample_runtime sample_engine (JObject [(''h'', JString ''warm'')])
     = Inr \<lparr> content = [\<lparr> item_type = ''text'', item_text = Some ''warm'' \<rparr>] \<rparr>
   \<and> execute (tools ! 1) sample_runtime sample_engine (JObject [])
     = Inr \<lparr> content = [\<lparr> item_type = ''text'',
              item_text = Some (''['' @ [CHR 0x0A] @ ''  0'' @ [CHR 0x0A] @ '']'') \<rparr>] \<rparr>"
proof -
  have m: "tools ! 4 \<in> set tools" "tools ! 1 \<in> set tools"
    by (simp_all add: tools_def)
  have n: "name (tools ! 4) = ''harveyHue''" "name (tools ! 1) = ''uniqueRandomHues''"
    by (simp_all add: tools_def)
  have o4: "tool_out ''harveyHue'' sample_runtime sample_engine (JObject [(''h'', JString ''warm'')])
      = Inr (JString ''warm'')"
    by (simp add: tool_out_def harveyHue_out_def destructure_def get_prop_def sample_engine_def)
  have o1: "tool_out ''uniqueRandomHues'' sample_runtime sample_engine (JObject [])
      = Inr (JArray [JNumber 0])"
    by (simp add: tool_out_def uniqueRandomHues_out_def uniqueRandomHues_parameters_def steps
          sample_engine_def)
  have s: "Number_toString sample_runtime 0 = ''0''"
    by (simp add: sample_runtime_def)
  note all = asResult_single_text_item [of sample_runtime JNull sample_engine, THEN conjunct2,
      rule_format]
  show ?thesis
    using all [OF m(1), of "JObject [(''h'', JString ''warm'')]"] all [OF m(2), of "JObject []"]
    unfolding n o4 o1 by (simp add: stringify_example s)
qed

subsection \<open>Unknown fields\<close>

lemma get_prop_filter:
  "k \<in> K \<Longrightarrow> get_prop (filter (\<lambda>kv. fst kv \<in> K) fs) k = get_prop fs k"
  by (induction fs) (auto simp add: get_prop_def)

lemma has_key_filter:
  "k \<in> K \<Longrightarrow> has_key (filter (\<lambda>kv. fst kv \<in> K) fs) k = has_key fs k"
  by (induction fs) (auto simp add: has_key_def)

lemma run_fields_cong:
  "(\<And>k. k \<in> fst ` set ps \<Longrightarrow> get_prop fs k = get_prop fs' k \<and> has_key fs k = has_key fs' k)
   \<Longrightarrow> run_fields ps fs = run_fields ps fs'"
  by (induction ps fs rule: run_fields.induct) auto

lemma run_fields_keys: "map fst (run_fields ps fs) = map fst ps"
  by (induction ps fs rule: run_fields.induct) auto

lemma final_fields_keys: "set (map fst (final_fields ps)) \<subseteq> set (map fst ps)"
  by (induction ps rule: final_fields.induct) auto

lemma zparse_object_strip:
  "zparse (ZObject shape) (JObject fs)
     = zparse (ZObject shape) (JObject (filter (\<lambda>kv. fst kv \<in> set (map fst shape)) fs))"
proof -
  have "run_fields (map (map_prod id zparse) shape) fs
      = run_fields (map (map_prod id zparse) shape) (filter (\<lambda>kv. fst kv \<in> set (map fst shape)) fs)"
  proof (rule run_fields_cong)
    fix k
    assume "k \<in> fst ` set (map (map_prod id zparse) shape)"
    then have "k \<in> set (map fst shape)"
      by force
    then show "get_prop fs k = get_prop (filter (\<lambda>kv. fst kv \<in> set (map fst shape)) fs) k
        \<and> has_key fs k = has_key (filter (\<lambda>kv. fst kv \<in> set (map fst shape)) fs) k"
      using get_prop_filter [of k "set (map fst shape)" fs]
        has_key_filter [of k "set (map fst shape)" fs]
      by simp
  qed
  then show ?thesis
    by (simp add: object_result_def own_fields_def)
qed

lemma parse_object_keys:
  assumes "parse (ZObject shape) raw = Inr p"
  shows "\<exists>ps. p = JObject ps \<and> set (map fst ps) \<subseteq> set (map fst shape)"
proof -
  from assms obtain fs where raw: "raw = JObject fs"
    by (cases raw) (auto simp add: parse_def object_result_def INVALID_def)
  let ?rs = "run_fields (map (map_prod id zparse) shape) fs"
  from assms raw have "p = JObject (final_fields ?rs)"
    by (auto simp add: parse_def object_result_def own_fields_def mergeObjectSync_def
          split: list.splits if_splits option.splits)
  moreover have "set (map fst (final_fields ?rs)) \<subseteq> set (map fst shape)"
    using final_fields_keys [of ?rs] by (simp add: run_fields_keys comp_def)
  ultimately show ?thesis by blast
qed

text \<open>
  Claim C2, as stated: validating an argument object with a field that the tool's parameters
  do not declare fails. It does not: \<^verbatim>\<open>generate\<close> accepts an object whose only field is
  undeclared, and the canonical arguments are the defaults alone.
\<close>

theorem generate_accepts_unknown_field:
  "''bogus'' \<notin> set (map fst generate_parameters)
   \<and> parse (ZObject generate_parameters) (JObject [(''bogus'', JNumber 1)])
       = Inr (JObject [(''total'', JNumber 10)])"
  by (simp add: shapes steps)

text \<open>
  Claim C2, amended. Validation against a tool's parameters does not look at undeclared
  fields: the outcome is the outcome for the object without them, and accepted canonical
  arguments carry declared fields only. Unknown fields are dropped, neither rejected nor
  kept.
\<close>

theorem unknown_keys_stripped:
  "parse (ZObject shape) (JObject fs)
     = parse (ZObject shape) (JObject (filter (\<lambda>kv. fst kv \<in> set (map fst shape)) fs))
   \<and> (case parse (ZObject shape) (JObject fs) of
         Inl e \<Rightarrow> True
       | Inr p \<Rightarrow> set (map fst (own_fields p)) \<subseteq> set (map fst shape))"
proof -
  have "set (map fst (own_fields p)) \<subseteq> set (map fst shape)"
    if "parse (ZObject shape) (JObject fs) = Inr p" for p
    using parse_object_keys [OF that] by (auto simp add: own_fields_def)
  then show ?thesis
    using zparse_object_strip [of shape fs]
    by (simp add: parse_def split: sum.splits)
qed

theorem unknown_keys_stripped_witness:
  "parse (ZObject generate_parameters) (JObject [(''total'', JNumber 5), (''bogus'', JNumber 1)])
     = parse (ZObject generate_parameters) (JObject [(''total'', JNumber 5)])"
  using unknown_keys_stripped [of generate_parameters "[(''total'', JNumber 5), (''bogus'', JNumber 1)]"]
  by (simp add: shapes)

subsection \<open>The stand-in engine\<close>

lemma sample_colorToCSS:
  "colorToCSS sample_engine c (JString sp) = sp @ ''(c)''"
  "colorToCSS sample_engine c JUndefined = ''undefined(c)''"
  by (simp_all add: sample_engine_def)

lemma sample_pointOnCurve:
  "pointOnCurve sample_engine args rest = JArray [JArray (take 2 args), JArray rest]"
  by (simp add: sample_engine_def)

lemma sample_ramps:
  "generateColorRamp sample_engine opts
     = [JArray [JNumber 0, JNumber 1, JNumber 0], JArray [JNumber 1, JNumber 1, JNumber 0]]"
  "generateColorRampWithCurve sample_engine opts = [JArray [JNumber 1, JNumber 0, JNumber 1]]"
  by (simp_all add: sample_engine_def)

subsection \<open>Defaults under \<^verbatim>\<open>optional\<close>\<close>

text \<open>
  Claim C6 says that validation fills in \<^verbatim>\<open>total = 10\<close> and \<^verbatim>\<open>hCycles = 1\<close> when they are
  omitted. For the empty argument object \<^verbatim>\<open>generate\<close> gets \<^verbatim>\<open>total = 10\<close> and no \<^verbatim>\<open>hCycles\<close>:
  \<^verbatim>\<open>hCycles\<close> is declared \<^verbatim>\<open>.default(1).optional()\<close>, the outer \<^verbatim>\<open>optional\<close> answers
  \<^verbatim>\<open>undefined\<close> before the default is consulted, and the same schema without that wrapper
  does yield 1.
\<close>

theorem generate_hCycles_default_unreachable:
  "parse (ZObject generate_parameters) (JObject []) = Inr (JObject [(''total'', JNumber 10)])
   \<and> map_of generate_parameters ''hCycles'' = Some (ZOptional (ZDefault (ZNumber [Min 1]) (JNumber 1)))
   \<and> zparse (ZOptional (ZDefault (ZNumber [Min 1]) (JNumber 1))) JUndefined = ([], Some JUndefined)
   \<and> zparse (ZDefault (ZNumber [Min 1]) (JNumber 1)) JUndefined = ([], Some (JNumber 1))"
  by (simp add: shapes steps)

text \<open>
  Claim C10. When \<^verbatim>\<open>mode\<close> is omitted, the \<^verbatim>\<open>mode\<close> schema of \<^verbatim>\<open>toCSS\<close> parses \<^verbatim>\<open>undefined\<close> to
  \<^verbatim>\<open>undefined\<close>, although the chain inside \<^verbatim>\<open>optional\<close> would give the default \<^verbatim>\<open>oklch\<close>;
  the canonical arguments have no \<^verbatim>\<open>mode\<close>, and the handler calls \<^verbatim>\<open>colorToCSS\<close> with
  \<^verbatim>\<open>undefined\<close> as the colour space.
\<close>

theorem toCSS_mode_omitted:
  "zparse (ZOptional toCSS_mode_inner) JUndefined = ([], Some JUndefined)
   \<and> zparse toCSS_mode_inner JUndefined = ([], Some (JString ''oklch''))
   \<and> parse (ZObject toCSS_parameters) (JObject [(''color'', JArray [JNumber h, JNumber s, JNumber l])])
       = Inr (JObject [(''color'', JArray [JNumber h, JNumber s, JNumber l])])
   \<and> toCSS_out eng (JObject [(''color'', JArray [JNumber h, JNumber s, JNumber l])])
       = Inr (JString (colorToCSS eng (JArray [JNumber h, JNumber s, JNumber l]) JUndefined))"
  by (simp add: toCSS_parameters_def toCSS_mode_inner_def toCSS_mode_transform_def steps
        toCSS_out_def destructure_def)

subsection \<open>Mode aliases through the dispatcher\<close>

lemma find_toCSS:
  "List.find (\<lambda>t. name t = ''toCSS'') tools
     = Some \<lparr> name = ''toCSS'', parameters = toCSS_parameters, execute = toCSS_execute \<rparr>"
  by (simp add: tools_def)

lemma dispatch_toCSS_mode:
  assumes "m \<in> {''css'', ''hsl''}"
  shows "dispatch rt eng ''toCSS''
           (JObject [(''color'', JArray [JNumber h, JNumber s, JNumber l]), (''mode'', JString m)])
         = Inr (asResult rt (JString (colorToCSS eng (JArray [JNumber h, JNumber s, JNumber l])
                                        (JString ''hsl''))))"
  using assms
  by (auto simp add: dispatch_def find_toCSS toCSS_parameters_def toCSS_mode_inner_def
        toCSS_mode_transform_def steps toCSS_execute_def toCSS_out_def destructure_def)

text \<open>
  Claim C9. For every colour of three numbers, dispatching \<^verbatim>\<open>toCSS\<close> with mode \<^verbatim>\<open>css\<close> and
  with mode \<^verbatim>\<open>hsl\<close> gives the same envelope, the one for \<^verbatim>\<open>colorToCSS(color, 'hsl')\<close>: both
  modes are resolved to \<^verbatim>\<open>hsl\<close> before the engine is called.
\<close>

theorem toCSS_css_same_as_hsl:
  "dispatch rt eng ''toCSS''
     (JObject [(''color'', JArray [JNumber h, JNumber s, JNumber l]), (''mode'', JString ''css'')])
   = Inr (asResult rt (JString (colorToCSS eng (JArray [JNumber h, JNumber s, JNumber l])
                                  (JString ''hsl''))))
   \<and> dispatch rt eng ''toCSS''
     (JObject [(''color'', JArray [JNumber h, JNumber s, JNumber l]), (''mode'', JString ''hsl'')])
   = Inr (asResult rt (JString (colorToCSS eng (JArray [JNumber h, JNumber s, JNumber l])
                                  (JString ''hsl''))))"
  by (simp add: dispatch_toCSS_mode)

theorem toCSS_css_same_as_hsl_witness:
  "dispatch sample_runtime sample_engine ''toCSS''
     (JObject [(''color'', JArray [JNumber 200, JNumber 50, JNumber 50]), (''mode'', JString ''css'')])
   = Inr \<lparr> content = [\<lparr> item_type = ''text'', item_text = Some ''hsl(c)'' \<rparr>] \<rparr>
   \<and> dispatch sample_runtime sample_engine ''toCSS''
     (JObject [(''color'', JArray [JNumber 200, JNumber 50, JNumber 50]), (''mode'', JString ''hsl'')])
   = Inr \<lparr> content = [\<lparr> item_type = ''text'', item_text = Some ''hsl(c)'' \<rparr>] \<rparr>"
  using toCSS_css_same_as_hsl [of sample_runtime sample_engine 200 50 50]
  by (simp add: asResult_def sample_colorToCSS)

subsection \<open>The utility table\<close>

lemma utils_known_names:
  assumes "get_prop fs ''fn'' = JString fn" and "get_prop fs ''args'' = JArray args"
  shows "utils_out rt eng (JObject fs) =
     (if fn = ''shuffle'' then Inr (shuffleArray eng args)
      else if fn = ''lerp'' then Inr (lerp eng args)
      else if fn = ''scaleSpread'' then Inr (scaleSpreadArray eng args)
      else if fn = ''curvePoint'' then Inr (pointOnCurve eng args (drop 2 args))
      else if fn = ''curveEasings'' then Inr (makeCurveEasings eng args)
      else if fn \<in> set Object_prototype_names
        then call_inherited (map (\<lambda>kf. (fst kf, JFunction (fst kf))) (utils_map eng)) fn
      else Inl (Error (''utils: unknown fn '' @ [CHR 0x22] @ fn @ [CHR 0x22])))"
  using assms
  by (simp add: utils_out_def destructure_def ToString_def utils_map_def spread_def)

text \<open>
  Claim C8 says that every \<^verbatim>\<open>fn\<close> outside the five names of the table fails with the
  unknown-utility error. The guard \<^verbatim>\<open>!map[fn]\<close> does not hold for a name that \<^verbatim>\<open>map\<close>
  inherits: for \<^verbatim>\<open>fn = 'toString'\<close> the handler throws nothing, calls
  \<^verbatim>\<open>Object.prototype.toString\<close> on the table and returns its result as the payload, and
  for \<^verbatim>\<open>fn = 'constructor'\<close> it returns the serialization of a fresh empty object.
\<close>

theorem utils_inherited_name_passes_guard:
  "utils_execute rt eng (JObject [(''fn'', JString ''toString'')])
     = Inr \<lparr> content = [\<lparr> item_type = ''text'', item_text = Some ''[object Object]'' \<rparr>] \<rparr>
   \<and> utils_execute rt eng (JObject [(''fn'', JString ''constructor'')])
     = Inr \<lparr> content = [\<lparr> item_type = ''text'', item_text = Some ''{}'' \<rparr>] \<rparr>
   \<and> ''toString'' \<notin> set [''shuffle'', ''lerp'', ''scaleSpread'', ''curvePoint'', ''curveEasings'']
   \<and> ''constructor'' \<notin> set [''shuffle'', ''lerp'', ''scaleSpread'', ''curvePoint'', ''curveEasings'']"
  by (simp add: utils_execute_def utils_out_def destructure_def get_prop_def ToString_def
        utils_map_def Object_prototype_names_def call_inherited_def asResult_def
        JSON_stringify_def wrap_partial_def)

text \<open>
  Claim C7. For \<^verbatim>\<open>fn = 'curvePoint'\<close> the handler applies \<^verbatim>\<open>pointOnCurve\<close> in two stages:
  it is called with the positional arguments, and the function it returns is called with the
  arguments from index 2 on. For a \<^verbatim>\<open>pointOnCurve\<close> of two parameters, as the engine's is, the
  first stage is determined by the first two arguments, so the grouping is: the first two
  build the curve, the remaining ones sample it.
\<close>

theorem utils_curvePoint_grouping:
  assumes "get_prop fs ''fn'' = JString ''curvePoint''" and "get_prop fs ''args'' = JArray args"
  shows "utils_out rt eng (JObject fs) = Inr (pointOnCurve eng args (drop 2 args))
     \<and> ((\<forall>as. pointOnCurve eng as = pointOnCurve eng (take 2 as)) \<longrightarrow>
          utils_out rt eng (JObject fs) = Inr (pointOnCurve eng (take 2 args) (drop 2 args)))"
  using assms
  by (simp add: utils_out_def destructure_def ToString_def utils_map_def spread_def)

theorem utils_curvePoint_grouping_witness:
  "utils_out sample_runtime sample_engine
     (JObject [(''fn'', JString ''curvePoint''),
               (''args'', JArray [JString ''sine'', JNumber 2, JNumber (1 / 2)])])
   = Inr (JArray [JArray [JString ''sine'', JNumber 2], JArray [JNumber (1 / 2)]])"
proof -
  have two: "\<forall>as. pointOnCurve sample_engine as = pointOnCurve sample_engine (take 2 as)"
    by (simp add: sample_pointOnCurve fun_eq_iff)
  show ?thesis
    using two utils_curvePoint_grouping [of "[(''fn'', JString ''curvePoint''),
               (''args'', JArray [JString ''sine'', JNumber 2, JNumber (1 / 2)])]"
              "[JString ''sine'', JNumber 2, JNumber (1 / 2)]" sample_runtime sample_engine]
    by (simp add: get_prop_def sample_pointOnCurve)
qed

subsection \<open>The shape of a \<^verbatim>\<open>toCSS\<close> result\<close>

lemma number_item_value:
  "snd (at_path sg (number_result [] x)) \<noteq> None \<Longrightarrow> \<exists>a. x = JNumber a"
  by (cases x) (simp_all add: at_path_def number_result_def INVALID_def)

lemma Color3_validD:
  assumes "is_valid (zparse Color3 c)"
  shows "\<exists>a b d. c = JArray [JNumber a, JNumber b, JNumber d]"
proof -
  from assms obtain xs where c: "c = JArray xs"
    by (cases c) (simp_all add: Color3_def is_valid_def array_result_def INVALID_def)
  from assms c have len: "length xs = 3"
    by (simp add: Color3_def is_valid_def array_result_def mergeArray_def elements_def
          split: if_splits)
  then obtain x y z where xs: "xs = [x, y, z]"
    by (auto simp add: numeral_3_eq_3 length_Suc_conv)
  from assms c xs
  have "snd (at_path (Index 0) (number_result [] x)) \<noteq> None"
       "snd (at_path (Index 1) (number_result [] y)) \<noteq> None"
       "snd (at_path (Index 2) (number_result [] z)) \<noteq> None"
    by (simp_all add: Color3_def is_valid_def array_result_def mergeArray_def elements_def
          numeral_2_eq_2 split: if_splits)
  then obtain a b d where "x = JNumber a" "y = JNumber b" "z = JNumber d"
    using number_item_value by blast
  with c xs show ?thesis by simp
qed

lemma Color3_valid_tuple: "is_valid (zparse Color3 (JArray [JNumber a, JNumber b, JNumber d]))"
  by (simp add: Color3_def steps)

text \<open>
  Claim C3, as stated: \<^verbatim>\<open>toCSS\<close> maps a sequence of colours to the sequence of their CSS
  strings. The module's \<^verbatim>\<open>toCSS\<close> declares \<^verbatim>\<open>color\<close> as one colour, rejects a sequence in
  validation, and its handler passes whatever it gets to \<^verbatim>\<open>colorToCSS\<close> once, so the payload
  is one string. The wrapper variant accepts the empty sequence and answers it with one
  string too.
\<close>

theorem toCSS_sequence_counterexample:
  "toCSS_out sample_engine
     (JObject [(''color'', JArray [JArray [JNumber 200, JNumber 50, JNumber 50],
                                   JArray [JNumber 10, JNumber 20, JNumber 30]]),
               (''mode'', JString ''hsl'')])
     = Inr (JString ''hsl(c)'')
   \<and> parse (ZObject toCSS_parameters)
       (JObject [(''color'', JArray [JArray [JNumber 200, JNumber 50, JNumber 50],
                                     JArray [JNumber 10, JNumber 20, JNumber 30]]),
                 (''mode'', JString ''hsl'')])
     = Inl (ZodError [ZodIssue [Key ''color''] too_small,
                      ZodIssue [Key ''color'', Index 0] (invalid_type ''number''),
                      ZodIssue [Key ''color'', Index 1] (invalid_type ''number'')])
   \<and> parse (ZObject wrapper_toCSS_parameters)
       (JObject [(''color'', JArray []), (''mode'', JString ''hsl'')])
     = Inr (JObject [(''color'', JArray []), (''mode'', JString ''hsl'')])
   \<and> wrapper_toCSS_out sample_engine (JObject [(''color'', JArray []), (''mode'', JString ''hsl'')])
     = Inr (JString ''hsl(c)'')"
  by (simp add: toCSS_out_def wrapper_toCSS_out_def destructure_def index0_def isArray_def
        sample_colorToCSS toCSS_parameters_def toCSS_mode_inner_def toCSS_mode_transform_def
        wrapper_toCSS_parameters_def Palette_def Color3_def wrapper_mode_transform_def
        wrapper_mode_aliases_def steps)

text \<open>
  Claim C3, amended. Given one colour of three numbers, the payload of \<^verbatim>\<open>toCSS\<close> is the single
  CSS string of that colour, in the module and in the wrapper variant. Given a non-empty
  sequence of such colours, the payload of the wrapper variant's \<^verbatim>\<open>toCSS\<close> is the sequence of
  their CSS strings, in the same order and of the same length.
\<close>

theorem toCSS_shape_mirrors_input:
  assumes "get_prop fs ''color'' = color" and "get_prop fs ''mode'' = mode"
  shows "(is_valid (zparse Color3 color) \<longrightarrow>
            wrapper_toCSS_out eng (JObject fs) = Inr (JString (colorToCSS eng color mode))
            \<and> toCSS_out eng (JObject fs) = Inr (JString (colorToCSS eng color mode)))
       \<and> (\<forall>cs. color = JArray cs \<and> cs \<noteq> [] \<and> list_all (\<lambda>c. is_valid (zparse Color3 c)) cs \<longrightarrow>
            wrapper_toCSS_out eng (JObject fs)
              = Inr (JArray (map (\<lambda>c. JString (colorToCSS eng c mode)) cs)))"
proof (intro conjI impI allI)
  assume "is_valid (zparse Color3 color)"
  then obtain a b d where "color = JArray [JNumber a, JNumber b, JNumber d]"
    using Color3_validD by blast
  with assms show "wrapper_toCSS_out eng (JObject fs) = Inr (JString (colorToCSS eng color mode))"
    by (simp add: wrapper_toCSS_out_def destructure_def index0_def isArray_def)
next
  assume "is_valid (zparse Color3 color)"
  from assms show "toCSS_out eng (JObject fs) = Inr (JString (colorToCSS eng color mode))"
    by (simp add: toCSS_out_def destructure_def)
next
  fix cs
  assume h: "color = JArray cs \<and> cs \<noteq> [] \<and> list_all (\<lambda>c. is_valid (zparse Color3 c)) cs"
  then obtain c rest where cs: "cs = c # rest"
    by (cases cs) auto
  with h have "is_valid (zparse Color3 c)" by simp
  then obtain a b d where "c = JArray [JNumber a, JNumber b, JNumber d]"
    using Color3_validD by blast
  with assms h cs
  show "wrapper_toCSS_out eng (JObject fs)
          = Inr (JArray (map (\<lambda>c. JString (colorToCSS eng c mode)) cs))"
    by (simp add: wrapper_toCSS_out_def destructure_def index0_def isArray_def)
qed

theorem toCSS_shape_mirrors_input_witness:
  "wrapper_toCSS_out sample_engine
     (JObject [(''color'', JArray [JNumber 200, JNumber 50, JNumber 50]), (''mode'', JString ''hsl'')])
     = Inr (JString ''hsl(c)'')
   \<and> toCSS_out sample_engine
     (JObject [(''color'', JArray [JNumber 200, JNumber 50, JNumber 50]), (''mode'', JString ''hsl'')])
     = Inr (JString ''hsl(c)'')
   \<and> wrapper_toCSS_out sample_engine
     (JObject [(''color'', JArray [JArray [JNumber 200, JNumber 50, JNumber 50],
                                   JArray [JNumber 10, JNumber 20, JNumber 30]]),
               (''mode'', JString ''hsl'')])
     = Inr (JArray [JString ''hsl(c)'', JString ''hsl(c)''])"
proof -
  have v: "is_valid (zparse Color3 (JArray [JNumber 200, JNumber 50, JNumber 50]))"
          "is_valid (zparse Color3 (JArray [JNumber 10, JNumber 20, JNumber 30]))"
    by (rule Color3_valid_tuple)+
  have one: "wrapper_toCSS_out sample_engine
     (JObject [(''color'', JArray [JNumber 200, JNumber 50, JNumber 50]), (''mode'', JString ''hsl'')])
     = Inr (JString ''hsl(c)'')
   \<and> toCSS_out sample_engine
     (JObject [(''color'', JArray [JNumber 200, JNumber 50, JNumber 50]), (''mode'', JString ''hsl'')])
     = Inr (JString ''hsl(c)'')"
    using v toCSS_shape_mirrors_input
      [of "[(''color'', JArray [JNumber 200, JNumber 50, JNumber 50]), (''mode'', JString ''hsl'')]"
          "JArray [JNumber 200, JNumber 50, JNumber 50]" "JString ''hsl''" sample_engine]
    by (simp add: get_prop_def sample_colorToCSS)
  have many: "wrapper_toCSS_out sample_engine
     (JObject [(''color'', JArray [JArray [JNumber 200, JNumber 50, JNumber 50],
                                   JArray [JNumber 10, JNumber 20, JNumber 30]]),
               (''mode'', JString ''hsl'')])
     = Inr (JArray [JString ''hsl(c)'', JString ''hsl(c)''])"
    using v toCSS_shape_mirrors_input
      [of "[(''color'', JArray [JArray [JNumber 200, JNumber 50, JNumber 50],
                                   JArray [JNumber 10, JNumber 20, JNumber 30]]),
               (''mode'', JString ''hsl'')]"
          "JArray [JArray [JNumber 200, JNumber 50, JNumber 50],
                                   JArray [JNumber 10, JNumber 20, JNumber 30]]"
          "JString ''hsl''" sample_engine]
    by (simp add: get_prop_def sample_colorToCSS)
  from one many show ?thesis by simp
qed

subsection \<open>Ramp generation\<close>

lemma get_prop_absent: "k \<notin> set (map fst fs) \<Longrightarrow> get_prop fs k = JUndefined"
  by (induction fs) (auto simp add: get_prop_def)

lemma final_fields_get_prop:
  "distinct (map fst ps) \<Longrightarrow> (k, a, (is, Some v)) \<in> set ps \<Longrightarrow> k \<noteq> ''__proto__''
   \<Longrightarrow> get_prop (final_fields ps) k = v"
proof (induction ps)
  case Nil
  then show ?case by simp
next
  case (Cons q ps)
  obtain k' a' is' r' where q: "q = (k', a', (is', r'))"
    by (cases q) auto
  show ?case
  proof (cases "k' = k")
    case True
    with Cons.prems q have same: "r' = Some v" "a' = a"
      by (auto simp add: image_iff)
    from True Cons.prems q have "k \<notin> set (map fst ps)" by simp
    then have "k \<notin> set (map fst (final_fields ps))"
      using final_fields_keys [of ps] by blast
    then have "get_prop (final_fields ps) k = JUndefined"
      by (rule get_prop_absent)
    with True same q Cons.prems(3) show ?thesis
      by (auto simp add: get_prop_def)
  next
    case False
    with Cons.prems q have "get_prop (final_fields ps) k = v"
      by (intro Cons.IH) auto
    with False q show ?thesis
      by (cases r') (simp_all add: get_prop_def)
  qed
qed

lemma run_fields_member:
  "(k, s) \<in> set shape \<Longrightarrow>
     (k, has_key fs k, at_path (Key k) (zparse s (get_prop fs k)))
       \<in> set (run_fields (map (map_prod id zparse) shape) fs)"
  by (induction shape) auto

lemma at_path_valid: "at_path sg r = ([], Some v) \<longleftrightarrow> r = ([], Some v)"
  by (cases r) (auto simp add: at_path_def)

lemma parse_object_field:
  assumes ok: "parse (ZObject shape) raw = Inr parsed"
    and dist: "distinct (map fst shape)"
    and mem: "(k, s) \<in> set shape"
    and k: "k \<noteq> ''__proto__''"
  shows "zparse s (get_prop (own_fields raw) k) = ([], Some (get_prop (own_fields parsed) k))"
proof -
  from ok obtain fs where raw: "raw = JObject fs"
    by (cases raw) (auto simp add: parse_def object_result_def INVALID_def)
  let ?ps = "run_fields (map (map_prod id zparse) shape) fs"
  let ?r = "at_path (Key k) (zparse s (get_prop fs k))"
  from ok raw have issues: "concat (map (fst \<circ> snd \<circ> snd) ?ps) = []"
    and vals: "list_all (\<lambda>p. snd (snd (snd p)) \<noteq> None) ?ps"
    and parsed: "parsed = JObject (final_fields ?ps)"
    by (auto simp add: parse_def object_result_def own_fields_def mergeObjectSync_def
          split: list.splits if_splits option.splits)
  have m: "(k, has_key fs k, ?r) \<in> set ?ps"
    using mem by (rule run_fields_member)
  from issues m have "fst ?r = []" by force
  moreover from vals m have "snd ?r \<noteq> None"
    by (auto simp add: list_all_iff)
  ultimately obtain v where r: "?r = ([], Some v)"
    by (cases ?r) auto
  have "distinct (map fst ?ps)"
    using dist by (simp add: run_fields_keys comp_def)
  with m r k have "get_prop (final_fields ?ps) k = v"
    using final_fields_get_prop [of ?ps k "has_key fs k" "[]" v] by simp
  with r raw parsed show ?thesis
    by (simp add: at_path_valid own_fields_def)
qed

lemma optional_enum_valid:
  assumes "zparse (ZOptional (ZEnum vals)) x = ([], Some v)"
  shows "v = x \<and> (x = JUndefined \<or> (\<exists>m \<in> set vals. x = JString m))"
  using assms
  by (cases x) (auto simp add: optional_result_def enum_result_def INVALID_def split: if_splits)

lemma optional_Format_valid:
  assumes "zparse (ZOptional Format) x = ([], Some v)"
  shows "v \<in> {JUndefined, JString ''array'', JString ''css-hsl'', JString ''css-oklch''}"
  using assms
  by (cases x)
     (auto simp add: Format_def Format_transform_def optional_result_def enum_result_def
        transform_result_def INVALID_def split: if_splits)

lemma generate_fields:
  assumes "parse (ZObject generate_parameters) raw = Inr (JObject p)"
  shows "get_prop p ''curveMethod'' = JUndefined
           \<or> (\<exists>m \<in> set [''lam'' @ [CHR 0xE9], ''sine'', ''power'', ''linear''].
                 get_prop p ''curveMethod'' = JString m)"
    and "get_prop p ''format'' \<in> {JUndefined, JString ''array'', JString ''css-hsl'', JString ''css-oklch''}"
proof -
  have d: "distinct (map fst generate_parameters)"
    by (simp add: generate_parameters_def RampBase_def CurveExtra_def FormatOpt_def)
  have "(''curveMethod'', ZOptional (ZEnum [''lam'' @ [CHR 0xE9], ''sine'', ''power'', ''linear'']))
          \<in> set generate_parameters"
    by (simp add: generate_parameters_def RampBase_def CurveExtra_def FormatOpt_def)
  from parse_object_field [OF assms d this]
  show "get_prop p ''curveMethod'' = JUndefined
           \<or> (\<exists>m \<in> set [''lam'' @ [CHR 0xE9], ''sine'', ''power'', ''linear''].
                 get_prop p ''curveMethod'' = JString m)"
    using optional_enum_valid by (fastforce simp add: own_fields_def)
  have "(''format'', ZOptional Format) \<in> set generate_parameters"
    by (simp add: generate_parameters_def RampBase_def CurveExtra_def FormatOpt_def)
  from parse_object_field [OF assms d this]
  show "get_prop p ''format'' \<in> {JUndefined, JString ''array'', JString ''css-hsl'', JString ''css-oklch''}"
    using optional_Format_valid by (simp add: own_fields_def)
qed

lemma generate_main:
  assumes ok: "parse (ZObject generate_parameters) raw = Inr (JObject p)"
  shows "(let opts = omit [''format'', ''curveMethod''] p;
              ramp = (case get_prop p ''curveMethod'' of
                        JUndefined \<Rightarrow> generateColorRamp eng (JObject opts)
                      | m \<Rightarrow> generateColorRampWithCurve eng (JObject (opts @ [(''curveMethod'', m)])))
          in (get_prop p ''format'' \<in> {JUndefined, JString ''array''}
                \<and> generate_out eng raw = Inr (JArray ramp))
           \<or> (get_prop p ''format'' = JString ''css-hsl''
                \<and> generate_out eng raw
                    = Inr (JArray (map (\<lambda>c. JString (colorToCSS eng c (JString ''hsl''))) ramp)))
           \<or> (get_prop p ''format'' = JString ''css-oklch''
                \<and> generate_out eng raw
                    = Inr (JArray (map (\<lambda>c. JString (colorToCSS eng c (JString ''oklch''))) ramp))))"
proof -
  from generate_fields(1) [OF ok]
  have cm: "get_prop p ''curveMethod'' = JUndefined
      \<or> (\<exists>m. get_prop p ''curveMethod'' = JString m \<and> m \<noteq> [])"
    by auto
  from generate_fields(2) [OF ok]
  have fm: "get_prop p ''format'' \<in> {JUndefined, JString ''array'', JString ''css-hsl'', JString ''css-oklch''}" .
  from cm fm show ?thesis
    by (auto simp add: generate_out_def ok own_fields_def Let_def)
qed


lemma wrapper_generate_fields:
  assumes "parse (ZObject wrapper_generate_parameters) raw = Inr (JObject p)"
  shows "get_prop p ''curveAccent'' = JUndefined
           \<or> (\<exists>a \<in> set (map fst ACCENT_ALIASES). get_prop p ''curveAccent'' = JString a)"
    and "get_prop p ''format'' \<in> {JUndefined, JString ''array'', JString ''css-hsl'', JString ''css-oklch''}"
proof -
  have d: "distinct (map fst wrapper_generate_parameters)"
    by (simp add: wrapper_generate_parameters_def RampBase_def CurveOpts_def FormatOpt_def)
  have "(''curveAccent'', ZOptional (ZEnum (map fst ACCENT_ALIASES))) \<in> set wrapper_generate_parameters"
    by (simp add: wrapper_generate_parameters_def RampBase_def CurveOpts_def FormatOpt_def)
  from parse_object_field [OF assms d this]
  show "get_prop p ''curveAccent'' = JUndefined
           \<or> (\<exists>a \<in> set (map fst ACCENT_ALIASES). get_prop p ''curveAccent'' = JString a)"
    using optional_enum_valid [of "map fst ACCENT_ALIASES"] by (fastforce simp add: own_fields_def)
  have "(''format'', ZOptional Format) \<in> set wrapper_generate_parameters"
    by (simp add: wrapper_generate_parameters_def RampBase_def CurveOpts_def FormatOpt_def)
  from parse_object_field [OF assms d this]
  show "get_prop p ''format'' \<in> {JUndefined, JString ''array'', JString ''css-hsl'', JString ''css-oklch''}"
    using optional_Format_valid by (simp add: own_fields_def)
qed

lemma accent_of_alias:
  assumes "a \<in> set (map fst ACCENT_ALIASES)"
  shows "a \<noteq> [] \<and> truthy (accent_of (JString a))"
  using assms by (auto simp add: ACCENT_ALIASES_def accent_of_def)

lemma generate_wrapper:
  assumes ok: "parse (ZObject wrapper_generate_parameters) raw = Inr (JObject p)"
  shows "(let opts = omit [''format'', ''curveAccent''] p;
              ramp = (case get_prop p ''curveAccent'' of
                        JUndefined \<Rightarrow> generateColorRamp eng (JObject opts)
                      | a \<Rightarrow> generateColorRampWithCurve eng
                               (JObject (opts @ [(''curveAccent'', accent_of a)])))
          in (get_prop p ''format'' \<in> {JUndefined, JString ''array''}
                \<and> wrapper_generate_out eng raw = Inr (JArray ramp))
           \<or> (get_prop p ''format'' = JString ''css-hsl''
                \<and> wrapper_generate_out eng raw
                    = Inr (JArray (map (\<lambda>c. JString (colorToCSS eng c (JString ''hsl''))) ramp)))
           \<or> (get_prop p ''format'' = JString ''css-oklch''
                \<and> wrapper_generate_out eng raw
                    = Inr (JArray (map (\<lambda>c. JString (colorToCSS eng c (JString ''oklch''))) ramp))))"
proof -
  from wrapper_generate_fields(1) [OF ok] accent_of_alias
  have ca: "get_prop p ''curveAccent'' = JUndefined
      \<or> (\<exists>a. get_prop p ''curveAccent'' = JString a \<and> a \<noteq> [] \<and> truthy (accent_of (JString a)))"
    by blast
  from wrapper_generate_fields(2) [OF ok]
  have fm: "get_prop p ''format'' \<in> {JUndefined, JString ''array'', JString ''css-hsl'', JString ''css-oklch''}" .
  from ca fm show ?thesis
    by (auto simp add: wrapper_generate_out_def ok own_fields_def Let_def)
qed

text \<open>
  Claim C5. On validated arguments \<open>p\<close>, \<^verbatim>\<open>generate\<close> calls \<^verbatim>\<open>generateColorRampWithCurve\<close> when
  the curve selector is present (with the remaining options and the selector) and
  \<^verbatim>\<open>generateColorRamp\<close> otherwise (with the remaining options). The payload is the ramp itself
  when the format is absent or \<^verbatim>\<open>array\<close>; otherwise it is the ramp with every colour mapped
  through \<^verbatim>\<open>colorToCSS\<close>, in \<^verbatim>\<open>hsl\<close> for \<^verbatim>\<open>css-hsl\<close> and in \<^verbatim>\<open>oklch\<close> for \<^verbatim>\<open>css-oklch\<close>, and
  validation leaves no other format. The selector is \<^verbatim>\<open>curveMethod\<close> in the module and the
  alias-resolved \<^verbatim>\<open>curveAccent\<close> in the wrapper variant.
\<close>

theorem generate_delegates_and_formats:
  "(parse (ZObject generate_parameters) raw = Inr (JObject p) \<longrightarrow>
      (let opts = omit [''format'', ''curveMethod''] p;
           ramp = (case get_prop p ''curveMethod'' of
                     JUndefined \<Rightarrow> generateColorRamp eng (JObject opts)
                   | m \<Rightarrow> generateColorRampWithCurve eng (JObject (opts @ [(''curveMethod'', m)])))
       in (get_prop p ''format'' \<in> {JUndefined, JString ''array''}
             \<and> generate_out eng raw = Inr (JArray ramp))
        \<or> (get_prop p ''format'' = JString ''css-hsl''
             \<and> generate_out eng raw
                 = Inr (JArray (map (\<lambda>c. JString (colorToCSS eng c (JString ''hsl''))) ramp)))
        \<or> (get_prop p ''format'' = JString ''css-oklch''
             \<and> generate_out eng raw
                 = Inr (JArray (map (\<lambda>c. JString (colorToCSS eng c (JString ''oklch''))) ramp))))
      \<and> (get_prop p ''curveMethod'' = JUndefined
           \<or> (\<exists>m \<in> set [''lam'' @ [CHR 0xE9], ''sine'', ''power'', ''linear''].
                 get_prop p ''curveMethod'' = JString m)))
   \<and> (parse (ZObject wrapper_generate_parameters) raw = Inr (JObject p) \<longrightarrow>
      (let opts = omit [''format'', ''curveAccent''] p;
           ramp = (case get_prop p ''curveAccent'' of
                     JUndefined \<Rightarrow> generateColorRamp eng (JObject opts)
                   | a \<Rightarrow> generateColorRampWithCurve eng
                            (JObject (opts @ [(''curveAccent'', accent_of a)])))
       in (get_prop p ''format'' \<in> {JUndefined, JString ''array''}
             \<and> wrapper_generate_out eng raw = Inr (JArray ramp))
        \<or> (get_prop p ''format'' = JString ''css-hsl''
             \<and> wrapper_generate_out eng raw
                 = Inr (JArray (map (\<lambda>c. JString (colorToCSS eng c (JString ''hsl''))) ramp)))
        \<or> (get_prop p ''format'' = JString ''css-oklch''
             \<and> wrapper_generate_out eng raw
                 = Inr (JArray (map (\<lambda>c. JString (colorToCSS eng c (JString ''oklch''))) ramp))))
      \<and> (get_prop p ''curveAccent'' = JUndefined
           \<or> (\<exists>a \<in> set (map fst ACCENT_ALIASES). get_prop p ''curveAccent'' = JString a)))"
  using generate_main [of raw p eng] generate_wrapper [of raw p eng]
    generate_fields(1) [of raw p] wrapper_generate_fields(1) [of raw p]
  by blast

theorem generate_delegates_and_formats_witness:
  "generate_out sample_engine
     (JObject [(''total'', JNumber 5), (''curveMethod'', JString ''sine''), (''format'', JString ''css'')])
     = Inr (JArray [JString ''hsl(c)''])
   \<and> wrapper_generate_out sample_engine
     (JObject [(''hueList'', JArray [JNumber 120, JNumber 160]), (''format'', JString ''array'')])
     = Inr (JArray [JArray [JNumber 0, JNumber 1, JNumber 0], JArray [JNumber 1, JNumber 1, JNumber 0]])"
proof -
  have p1: "parse (ZObject generate_parameters)
      (JObject [(''total'', JNumber 5), (''curveMethod'', JString ''sine''), (''format'', JString ''css'')])
      = Inr (JObject [(''total'', JNumber 5), (''curveMethod'', JString ''sine''),
                      (''format'', JString ''css-hsl'')])"
    by (simp add: shapes Format_transform_def steps)
  have p2: "parse (ZObject wrapper_generate_parameters)
      (JObject [(''hueList'', JArray [JNumber 120, JNumber 160]), (''format'', JString ''array'')])
      = Inr (JObject [(''total'', JNumber 10), (''hueList'', JArray [JNumber 120, JNumber 160]),
                      (''format'', JString ''array'')])"
    by (simp add: wrapper_generate_parameters_def CurveOpts_def ACCENT_ALIASES_def shapes
          Format_transform_def steps)
  from generate_delegates_and_formats [THEN conjunct1, rule_format, OF p1, of sample_engine]
  have a: "generate_out sample_engine
     (JObject [(''total'', JNumber 5), (''curveMethod'', JString ''sine''), (''format'', JString ''css'')])
     = Inr (JArray [JString ''hsl(c)''])"
    by (simp add: get_prop_def sample_ramps sample_colorToCSS)
  from generate_delegates_and_formats [THEN conjunct2, rule_format, OF p2, of sample_engine]
  have b: "wrapper_generate_out sample_engine
     (JObject [(''hueList'', JArray [JNumber 120, JNumber 160]), (''format'', JString ''array'')])
     = Inr (JArray [JArray [JNumber 0, JNumber 1, JNumber 0], JArray [JNumber 1, JNumber 1, JNumber 0]])"
    by (simp add: get_prop_def sample_ramps sample_colorToCSS)
  from a b show ?thesis by simp
qed

end
